theory Spec2Isabelle
  imports Complex_Main
begin

section \<open>Data model of \<open>SO3Base\<close>\<close>

text \<open>
  The scalar type \<open>S\<close> of the class template is a type parameter \<open>'a\<close>.  \<open>Hat\<close> and
  \<open>Vee\<close> use only the literal zero, negation and coefficient access, so they are stated
  over any type with these operations; the theorems that need more say so through the
  sort of \<open>'a\<close>.

  \<open>Tangent\<close> (\<open>Eigen::Matrix<S, 3, 1>\<close>) is a value with three coefficients and
  \<open>RotationMatrixType\<close> (\<open>Eigen::Matrix<S, 3, 3>\<close>) one with nine, written row by row
  as the comma initialiser of the source fills them.
\<close>

datatype 'a Tangent = Tangent (c0: 'a) (c1: 'a) (c2: 'a)

datatype 'a RotationMatrixType =
  Matrix3 (m00: 'a) (m01: 'a) (m02: 'a)
          (m10: 'a) (m11: 'a) (m12: 'a)
          (m20: 'a) (m21: 'a) (m22: 'a)

text \<open>The rows of a matrix, top to bottom, for reading a result.\<close>

definition rows :: "'a RotationMatrixType \<Rightarrow> 'a list list" where
  "rows m = [[m00 m, m01 m, m02 m], [m10 m, m11 m, m12 m], [m20 m, m21 m, m22 m]]"

text \<open>Transpose and coefficientwise negation of the matrix library.\<close>

definition transpose3 :: "'a RotationMatrixType \<Rightarrow> 'a RotationMatrixType" where
  "transpose3 m = Matrix3 (m00 m) (m10 m) (m20 m)
                          (m01 m) (m11 m) (m21 m)
                          (m02 m) (m12 m) (m22 m)"

definition neg3 :: "'a::uminus RotationMatrixType \<Rightarrow> 'a RotationMatrixType" where
  "neg3 m = Matrix3 (- m00 m) (- m01 m) (- m02 m)
                    (- m10 m) (- m11 m) (- m12 m)
                    (- m20 m) (- m21 m) (- m22 m)"

text \<open>A matrix is skew-symmetric when it equals the negation of its transpose.\<close>

definition skew_symmetric :: "'a::uminus RotationMatrixType \<Rightarrow> bool" where
  "skew_symmetric m = (m = neg3 (transpose3 m))"

section \<open>The maps \<open>Hat\<close> and \<open>Vee\<close>\<close>

text \<open>
  \<open>SO3Base::Hat\<close>: the result is filled row by row with
  \<open>0, -angleAxis(2), angleAxis(1), angleAxis(2), 0, -angleAxis(0), -angleAxis(1),
  angleAxis(0), 0\<close>.
\<close>

definition Hat :: "'a::{zero,uminus} Tangent \<Rightarrow> 'a RotationMatrixType" where
  "Hat angleAxis =
     Matrix3 0 (- c2 angleAxis) (c1 angleAxis)
             (c2 angleAxis) 0 (- c0 angleAxis)
             (- c1 angleAxis) (c0 angleAxis) 0"

text \<open>
  \<open>SO3Base::Vee\<close>: \<open>Tangent(mat(2, 1), mat(0, 2), mat(1, 0))\<close>, with no check that the
  argument is skew-symmetric.
\<close>

definition Vee :: "'a RotationMatrixType \<Rightarrow> 'a Tangent" where
  "Vee mat = Tangent (m21 mat) (m02 mat) (m10 mat)"

section \<open>Rotation elements and the generic interface\<close>

text \<open>
  An object of a class derived from \<open>SO3Base\<close> holds the payload \<open>mRepData\<close>; its
  representation \<open>Rep\<close> is a template argument.  The model keeps the representation as a
  tag beside the payload, so that elements of different representations are values of
  one type; \<open>'data\<close> covers the payload types of all representations.
\<close>

record ('rep, 'data) SO3 =
  rep :: 'rep
  mRepData :: 'data

text \<open>\<open>SO3Base::getRepData\<close> returns the payload.\<close>

definition getRepData :: "('rep, 'data) SO3 \<Rightarrow> 'data" where
  "getRepData x = mRepData x"

text \<open>
  \<open>SO3Base::toRotationMatrix\<close> runs \<open>convert_to_canonical_impl<S, Rep>\<close> on the payload.
  The conversion lives in \<open>dart/math/detail/SO3Base.hpp\<close>, which is not among the sources,
  and is the parameter \<open>conv\<close>, indexed by the representation.
\<close>

definition toRotationMatrix ::
  "('rep \<Rightarrow> 'data \<Rightarrow> 'a RotationMatrixType) \<Rightarrow> ('rep, 'data) SO3 \<Rightarrow> 'a RotationMatrixType" where
  "toRotationMatrix conv x = conv (rep x) (getRepData x)"

text \<open>
  The two overloads of \<open>SO3Base::operator==\<close>.  The one for an operand of the same class
  hands over to the comparison of the derived class (a parameter); the template for an
  operand of another class compares the two rotation matrices.
\<close>

definition operator_eq_same ::
  "(('rep, 'data) SO3 \<Rightarrow> ('rep, 'data) SO3 \<Rightarrow> bool) \<Rightarrow>
   ('rep, 'data) SO3 \<Rightarrow> ('rep, 'data) SO3 \<Rightarrow> bool" where
  "operator_eq_same derived_eq x other = derived_eq x other"

definition operator_eq_other ::
  "('rep \<Rightarrow> 'data \<Rightarrow> 'a RotationMatrixType) \<Rightarrow>
   ('rep, 'data) SO3 \<Rightarrow> ('rep, 'data) SO3 \<Rightarrow> bool" where
  "operator_eq_other conv x other =
     (toRotationMatrix conv x = toRotationMatrix conv other)"

text \<open>
  Overload resolution: the non-template overload applies when both operands have the
  same class, the template when the classes differ.
\<close>

definition operator_eq ::
  "(('rep, 'data) SO3 \<Rightarrow> ('rep, 'data) SO3 \<Rightarrow> bool) \<Rightarrow>
   ('rep \<Rightarrow> 'data \<Rightarrow> 'a RotationMatrixType) \<Rightarrow>
   ('rep, 'data) SO3 \<Rightarrow> ('rep, 'data) SO3 \<Rightarrow> bool" where
  "operator_eq derived_eq conv x other =
     (if rep x = rep other then operator_eq_same derived_eq x other
      else operator_eq_other conv x other)"

text \<open>
  \<open>SO3Base::canonical\<close> dispatches on \<open>is_canonical<Derived>\<close>, and both overloads have
  the return type \<open>traits<Derived>::Canonical\<close>.  The overload for \<open>std::true_type\<close>
  returns \<open>derived()\<close>, which initialises the returned object of the canonical class: a
  copy when the class of the element is its canonical class, a conversion by the
  constructor of the canonical class otherwise.  The overload for \<open>std::false_type\<close>
  constructs an object of the canonical class from \<open>derived()\<close>.  The two traits
  (\<open>is_c\<close> and \<open>Can\<close>) and the payload that the constructor of the canonical class
  computes (\<open>ctor\<close>) are parameters; the result has the canonical class by its type.
\<close>

definition canonical ::
  "('rep \<Rightarrow> bool) \<Rightarrow> ('rep \<Rightarrow> 'rep) \<Rightarrow> ('rep \<Rightarrow> ('rep, 'data) SO3 \<Rightarrow> 'data) \<Rightarrow>
   ('rep, 'data) SO3 \<Rightarrow> ('rep, 'data) SO3" where
  "canonical is_c Can ctor x =
     (if is_c (rep x)
      then (if Can (rep x) = rep x then x
            else \<lparr>rep = Can (rep x), mRepData = ctor (Can (rep x)) x\<rparr>)
      else \<lparr>rep = Can (rep x), mRepData = ctor (Can (rep x)) x\<rparr>)"

text \<open>\<open>SO3Base::isCanonical\<close> reads the trait.\<close>

definition isCanonical :: "('rep \<Rightarrow> bool) \<Rightarrow> ('rep, 'data) SO3 \<Rightarrow> bool" where
  "isCanonical is_c x = is_c (rep x)"

section \<open>Two representations\<close>

text \<open>
  The representation tags the source names, \<open>RotationMatrixRep\<close> and
  \<open>RotationVectorRep\<close>, and their payloads: a 3x3 matrix and a 3-vector.
\<close>

datatype Rep = RotationMatrixRep | RotationVectorRep

datatype 'a RepData = MatrixData "'a RotationMatrixType" | VectorData "'a Tangent"

text \<open>Arithmetic of the matrix library on 3x3 matrices.\<close>

definition Identity3 :: "'a::{zero,one} RotationMatrixType" where
  "Identity3 = Matrix3 1 0 0 0 1 0 0 0 1"

definition add3 :: "'a::plus RotationMatrixType \<Rightarrow> 'a RotationMatrixType \<Rightarrow> 'a RotationMatrixType" where
  "add3 a b = Matrix3 (m00 a + m00 b) (m01 a + m01 b) (m02 a + m02 b)
                      (m10 a + m10 b) (m11 a + m11 b) (m12 a + m12 b)
                      (m20 a + m20 b) (m21 a + m21 b) (m22 a + m22 b)"

definition scale3 :: "'a::times \<Rightarrow> 'a RotationMatrixType \<Rightarrow> 'a RotationMatrixType" where
  "scale3 k a = Matrix3 (k * m00 a) (k * m01 a) (k * m02 a)
                        (k * m10 a) (k * m11 a) (k * m12 a)
                        (k * m20 a) (k * m21 a) (k * m22 a)"

definition mult3 ::
  "'a::{plus,times} RotationMatrixType \<Rightarrow> 'a RotationMatrixType \<Rightarrow> 'a RotationMatrixType" where
  "mult3 a b =
     Matrix3 (m00 a * m00 b + m01 a * m10 b + m02 a * m20 b)
             (m00 a * m01 b + m01 a * m11 b + m02 a * m21 b)
             (m00 a * m02 b + m01 a * m12 b + m02 a * m22 b)
             (m10 a * m00 b + m11 a * m10 b + m12 a * m20 b)
             (m10 a * m01 b + m11 a * m11 b + m12 a * m21 b)
             (m10 a * m02 b + m11 a * m12 b + m12 a * m22 b)
             (m20 a * m00 b + m21 a * m10 b + m22 a * m20 b)
             (m20 a * m01 b + m21 a * m11 b + m22 a * m21 b)
             (m20 a * m02 b + m21 a * m12 b + m22 a * m22 b)"

text \<open>
  Modelled from the spec: the conversion of a rotation vector to the rotation matrix
  (\<open>convert_to_canonical_impl\<close> for \<open>RotationVectorRep\<close>, of the absent
  \<open>dart/math/detail/SO3Base.hpp\<close>).  The spec gives it as Rodrigues' formula, with the
  angle the norm of the vector and the zero vector the encoding of the identity; the
  scalars are real numbers.
\<close>

definition rotation_vector_to_matrix :: "real Tangent \<Rightarrow> real RotationMatrixType" where
  "rotation_vector_to_matrix v =
     (let theta = sqrt (c0 v * c0 v + c1 v * c1 v + c2 v * c2 v) in
      if theta = 0 then Identity3
      else add3 Identity3
             (add3 (scale3 (sin theta / theta) (Hat v))
                   (scale3 ((1 - cos theta) / (theta * theta)) (mult3 (Hat v) (Hat v)))))"

text \<open>
  Modelled from the spec: \<open>convert_to_canonical_impl\<close> for the two representations.  The
  rotation matrix is the canonical representation, so its payload is its own image.
\<close>

definition convert_to_canonical_impl :: "Rep \<Rightarrow> real RepData \<Rightarrow> real RotationMatrixType" where
  "convert_to_canonical_impl r d =
     (case d of MatrixData m \<Rightarrow> m | VectorData v \<Rightarrow> rotation_vector_to_matrix v)"

text \<open>
  Modelled from the spec: the trait table.  The rotation matrix is the canonical
  representation of every representation, and the only one \<open>is_canonical\<close> holds of;
  the constructor of the canonical class converts the payload to the rotation matrix.
\<close>

definition is_canonical :: "Rep \<Rightarrow> bool" where
  "is_canonical r = (r = RotationMatrixRep)"

definition Canonical :: "Rep \<Rightarrow> Rep" where
  "Canonical r = RotationMatrixRep"

definition Canonical_ctor :: "Rep \<Rightarrow> (Rep, real RepData) SO3 \<Rightarrow> real RepData" where
  "Canonical_ctor r x = MatrixData (toRotationMatrix convert_to_canonical_impl x)"

section \<open>Properties of \<open>Hat\<close> and \<open>Vee\<close>\<close>

lemma Vee_Hat: "Vee (Hat v) = v"
  by (cases v) (simp add: Vee_def Hat_def)

lemma skew_symmetric_entries:
  fixes M :: "'a::linordered_ab_group_add RotationMatrixType"
  assumes "skew_symmetric M"
  shows "m00 M = 0" and "m11 M = 0" and "m22 M = 0"
    and "m01 M = - m10 M" and "m20 M = - m02 M" and "m12 M = - m21 M"
proof -
  have h: "M = neg3 (transpose3 M)"
    using assms by (simp only: skew_symmetric_def)
  have "m00 M = - m00 M"
    by (subst h) (simp add: neg3_def transpose3_def)
  then show "m00 M = 0"
    by (simp only: equal_neg_zero)
  have "m11 M = - m11 M"
    by (subst h) (simp add: neg3_def transpose3_def)
  then show "m11 M = 0"
    by (simp only: equal_neg_zero)
  have "m22 M = - m22 M"
    by (subst h) (simp add: neg3_def transpose3_def)
  then show "m22 M = 0"
    by (simp only: equal_neg_zero)
  show "m01 M = - m10 M"
    by (subst h) (simp add: neg3_def transpose3_def)
  show "m20 M = - m02 M"
    by (subst h) (simp add: neg3_def transpose3_def)
  show "m12 M = - m21 M"
    by (subst h) (simp add: neg3_def transpose3_def)
qed

lemma Hat_Vee:
  fixes M :: "'a::linordered_ab_group_add RotationMatrixType"
  assumes "skew_symmetric M"
  shows "Hat (Vee M) = M"
proof -
  note e = skew_symmetric_entries [OF assms]
  have "Hat (Vee M) =
      Matrix3 0 (- m10 M) (m02 M) (m10 M) 0 (- m21 M) (- m02 M) (m21 M) 0"
    by (simp add: Hat_def Vee_def)
  also have "\<dots> = Matrix3 (m00 M) (m01 M) (m02 M) (m10 M) (m11 M) (m12 M)
      (m20 M) (m21 M) (m22 M)"
    by (simp only: e)
  also have "\<dots> = M"
    by simp
  finally show ?thesis .
qed

text \<open>
  C1. For every 3-vector \<open>v = (v0, v1, v2)\<close>, \<open>Hat(v)\<close> is exactly the matrix with rows
  \<open>[0, -v2, v1]\<close>, \<open>[v2, 0, -v0]\<close> and \<open>[-v1, v0, 0]\<close>.
\<close>

theorem Hat_rows:
  "rows (Hat (Tangent v0 v1 v2)) = [[0, - v2, v1], [v2, 0, - v0], [- v1, v0, 0]]"
  by (simp add: rows_def Hat_def)

text \<open>
  C2. \<open>Hat\<close> and \<open>Vee\<close> are mutually inverse: \<open>Vee(Hat(v))\<close> is \<open>v\<close> for every
  3-vector \<open>v\<close>, and \<open>Hat(Vee(M))\<close> is \<open>M\<close> for every skew-symmetric matrix \<open>M\<close>,
  where \<open>Vee\<close> reads the entries \<open>M(2,1)\<close>, \<open>M(0,2)\<close> and \<open>M(1,0)\<close>.  The scalars
  are those of a linearly ordered additive group, where only zero is its own negation.
\<close>

theorem Hat_Vee_inverse:
  fixes v :: "'a::linordered_ab_group_add Tangent"
    and M :: "'a RotationMatrixType"
  shows "Vee (Hat v) = v
    \<and> (skew_symmetric M \<longrightarrow> Hat (Vee M) = M)
    \<and> Vee M = Tangent (m21 M) (m02 M) (m10 M)"
  by (simp add: Vee_Hat Hat_Vee) (simp add: Vee_def)

theorem Hat_Vee_inverse_witness:
  "Vee (Hat (Tangent (1::real) 2 3)) = Tangent 1 2 3
    \<and> skew_symmetric (Matrix3 (0::real) (-3) 2 3 0 (-1) (-2) 1 0)
    \<and> Hat (Vee (Matrix3 (0::real) (-3) 2 3 0 (-1) (-2) 1 0))
        = Matrix3 0 (-3) 2 3 0 (-1) (-2) 1 0"
proof -
  have s: "skew_symmetric (Matrix3 (0::real) (-3) 2 3 0 (-1) (-2) 1 0)"
    by (simp add: skew_symmetric_def neg3_def transpose3_def)
  from Hat_Vee_inverse [of "Tangent (1::real) 2 3" "Matrix3 (0::real) (-3) 2 3 0 (-1) (-2) 1 0"] s
  show ?thesis by (simp add: Hat_def Vee_def)
qed

text \<open>
  C10. For every 3-vector \<open>v\<close>, \<open>Hat(v)\<close> is skew-symmetric: it equals the negation of
  its own transpose, its three diagonal entries are zero and opposite off-diagonal
  entries negate each other; so the output of \<open>Hat\<close> meets the precondition of \<open>Vee\<close>.
\<close>

theorem Hat_skew_symmetric:
  fixes v :: "'a::group_add Tangent"
  shows "skew_symmetric (Hat v)
    \<and> Hat v = neg3 (transpose3 (Hat v))
    \<and> m00 (Hat v) = 0 \<and> m11 (Hat v) = 0 \<and> m22 (Hat v) = 0
    \<and> m01 (Hat v) = - m10 (Hat v)
    \<and> m02 (Hat v) = - m20 (Hat v)
    \<and> m12 (Hat v) = - m21 (Hat v)"
  by (simp add: skew_symmetric_def Hat_def neg3_def transpose3_def)

section \<open>Equality across representations\<close>

text \<open>
  C3. For two elements held in different representations, \<open>operator==\<close> is the template
  overload and returns true if and only if the two results of \<open>toRotationMatrix\<close> are
  equal, whatever the conversion to the rotation matrix is; so two elements with
  different payloads compare equal as soon as their rotation matrices agree.
\<close>

theorem operator_eq_cross_representation:
  assumes "rep a \<noteq> rep b"
  shows "operator_eq derived_eq conv a b
      = (toRotationMatrix conv a = toRotationMatrix conv b)
    \<and> operator_eq derived_eq conv a b
      = (conv (rep a) (mRepData a) = conv (rep b) (mRepData b))"
  using assms
  by (simp add: operator_eq_def operator_eq_other_def toRotationMatrix_def getRepData_def)

theorem operator_eq_cross_representation_witness:
  "rep \<lparr>rep = RotationMatrixRep, mRepData = MatrixData Identity3\<rparr>
      \<noteq> rep \<lparr>rep = RotationVectorRep, mRepData = VectorData (Tangent 0 0 0)\<rparr>
   \<and> mRepData \<lparr>rep = RotationMatrixRep, mRepData = MatrixData Identity3\<rparr>
      \<noteq> mRepData \<lparr>rep = RotationVectorRep, mRepData = VectorData (Tangent 0 0 0)\<rparr>
   \<and> operator_eq (\<lambda>x y. mRepData x = mRepData y) convert_to_canonical_impl
        \<lparr>rep = RotationMatrixRep, mRepData = MatrixData Identity3\<rparr>
        \<lparr>rep = RotationVectorRep, mRepData = VectorData (Tangent 0 0 0)\<rparr>"
proof -
  have d: "rep \<lparr>rep = RotationMatrixRep, mRepData = MatrixData (Identity3 :: real RotationMatrixType)\<rparr>
      \<noteq> rep \<lparr>rep = RotationVectorRep, mRepData = VectorData (Tangent (0::real) 0 0)\<rparr>"
    by simp
  have m: "rotation_vector_to_matrix (Tangent 0 0 0) = Identity3"
    by (simp add: rotation_vector_to_matrix_def)
  from operator_eq_cross_representation [OF d, of "\<lambda>x y. mRepData x = mRepData y" convert_to_canonical_impl] m
  show ?thesis
    by (simp add: convert_to_canonical_impl_def toRotationMatrix_def getRepData_def)
qed

section \<open>The canonical form\<close>

text \<open>
  C7. \<open>canonical()\<close> is idempotent: \<open>r.canonical().canonical()\<close> is the same value as
  \<open>r.canonical()\<close>.  When the representation of \<open>r\<close> is canonical, \<open>canonical()\<close> returns
  \<open>r\<close> itself; and the second call finds a canonical representation, so it converts
  nothing and keeps the representation.  The trait table is any one in which the
  canonical class of a class is itself canonical, and a canonical class is its own
  canonical class.
\<close>

theorem canonical_idempotent:
  assumes "\<And>p. is_c (Can p)"
    and "\<And>p. is_c p \<Longrightarrow> Can p = p"
  shows "canonical is_c Can ctor (canonical is_c Can ctor r) = canonical is_c Can ctor r
    \<and> (is_c (rep r) \<longrightarrow> canonical is_c Can ctor r = r)
    \<and> isCanonical is_c (canonical is_c Can ctor r)
    \<and> rep (canonical is_c Can ctor (canonical is_c Can ctor r))
        = rep (canonical is_c Can ctor r)"
proof (cases "is_c (rep r)")
  case True
  then have "Can (rep r) = rep r"
    by (rule assms(2))
  with True have "canonical is_c Can ctor r = r"
    by (simp add: canonical_def)
  with True show ?thesis
    by (simp add: isCanonical_def)
next
  case False
  define y where "y = \<lparr>rep = Can (rep r), mRepData = ctor (Can (rep r)) r\<rparr>"
  from False have c: "canonical is_c Can ctor r = y"
    by (simp add: canonical_def y_def)
  have ry: "rep y = Can (rep r)"
    by (simp add: y_def)
  have cy: "is_c (rep y)"
    by (simp add: ry assms(1))
  then have "Can (rep y) = rep y"
    by (rule assms(2))
  with cy have "canonical is_c Can ctor y = y"
    by (simp add: canonical_def)
  with c cy False show ?thesis
    by (simp add: isCanonical_def)
qed

theorem canonical_idempotent_witness:
  "canonical is_canonical Canonical Canonical_ctor
      (canonical is_canonical Canonical Canonical_ctor
        \<lparr>rep = RotationVectorRep, mRepData = VectorData (Tangent 0 0 0)\<rparr>)
     = \<lparr>rep = RotationMatrixRep, mRepData = MatrixData Identity3\<rparr>
   \<and> canonical is_canonical Canonical Canonical_ctor
        \<lparr>rep = RotationVectorRep, mRepData = VectorData (Tangent 0 0 0)\<rparr>
     = \<lparr>rep = RotationMatrixRep, mRepData = MatrixData Identity3\<rparr>
   \<and> is_canonical (rep \<lparr>rep = RotationMatrixRep, mRepData = MatrixData (Identity3 :: real RotationMatrixType)\<rparr>)
   \<and> canonical is_canonical Canonical Canonical_ctor
        \<lparr>rep = RotationMatrixRep, mRepData = MatrixData Identity3\<rparr>
     = \<lparr>rep = RotationMatrixRep, mRepData = MatrixData Identity3\<rparr>"
proof -
  have t: "\<And>p. is_canonical (Canonical p)"
    by (simp add: is_canonical_def Canonical_def)
  have u: "\<And>p. is_canonical p \<Longrightarrow> Canonical p = p"
    by (simp add: is_canonical_def Canonical_def)
  have m: "rotation_vector_to_matrix (Tangent 0 0 0) = Identity3"
    by (simp add: rotation_vector_to_matrix_def)
  have c: "canonical is_canonical Canonical Canonical_ctor
        \<lparr>rep = RotationVectorRep, mRepData = VectorData (Tangent 0 0 0)\<rparr>
     = \<lparr>rep = RotationMatrixRep, mRepData = MatrixData Identity3\<rparr>"
    by (simp add: canonical_def is_canonical_def Canonical_def Canonical_ctor_def
        toRotationMatrix_def getRepData_def convert_to_canonical_impl_def m)
  have i: "is_canonical (rep \<lparr>rep = RotationMatrixRep, mRepData = MatrixData (Identity3 :: real RotationMatrixType)\<rparr>)"
    by (simp add: is_canonical_def)
  from canonical_idempotent [of is_canonical Canonical Canonical_ctor
      "\<lparr>rep = RotationVectorRep, mRepData = VectorData (Tangent 0 0 0)\<rparr>", OF t u]
    canonical_idempotent [of is_canonical Canonical Canonical_ctor
      "\<lparr>rep = RotationMatrixRep, mRepData = MatrixData Identity3\<rparr>", OF t u] c i
  show ?thesis
    by simp
qed

end
